theory Spec2Isabelle
  imports Complex_Main
begin

section \<open>geojson2h3: conversion between GeoJSON polygons and sets of H3 cells\<close>

text \<open>
  A shallow embedding of \<^verbatim>\<open>src/geojson2h3-1-2-0-1.js\<close>. Every function of the
  source is a HOL function of the same name. A thrown \<^verbatim>\<open>Error\<close> is the left
  summand of the result.

  Two things that the source uses are not part of the repository: the grid library
  \<^verbatim>\<open>h3\<close>, a global, and the arithmetic of the runtime on numbers (\<^verbatim>\<open>+\<close> and \<^verbatim>\<open>/\<close> on
  binary64 values, which round and overflow). Both are functions of the environment,
  a record that every operation takes as its first argument and that the statements
  below call \<open>h3\<close>. Nothing is assumed of these functions, so each theorem holds for
  every grid library and for the arithmetic of the runtime.
\<close>

subsection \<open>Constants\<close>

definition FEATURE :: string where
  "FEATURE = ''Feature''"

definition FEATURE_COLLECTION :: string where
  "FEATURE_COLLECTION = ''FeatureCollection''"

definition POLYGON :: string where
  "POLYGON = ''Polygon''"

definition MULTI_POLYGON :: string where
  "MULTI_POLYGON = ''MultiPolygon''"

subsection \<open>Data\<close>

text \<open>
  A property of an input object is absent (a read gives \<^verbatim>\<open>undefined\<close>), holds
  \<^verbatim>\<open>null\<close>, or holds a value of the documented type.
\<close>

datatype 'a field = Undefined | Null | Value 'a

type_synonym h3index = string

text \<open>A position is \<^verbatim>\<open>[lng, lat]\<close>; a ring is an array of positions; a polygon is
  an array of rings, the outer ring first.\<close>

type_synonym position = "real \<times> real"
type_synonym ring = "position list"
type_synonym polygon = "ring list"

datatype coords = Polygon_coordinates polygon | MultiPolygon_coordinates "polygon list"

record geometry =
  geometry_type :: "string field"
  geometry_coordinates :: coords

text \<open>An input object of \<^verbatim>\<open>featureToH3Set\<close>: its \<^verbatim>\<open>type\<close>, \<^verbatim>\<open>geometry\<close> and
  \<^verbatim>\<open>features\<close> properties. The members of \<^verbatim>\<open>features\<close> are objects of the same
  kind, since the source hands each of them to \<^verbatim>\<open>featureToH3Set\<close> again.\<close>

datatype geojson =
  GeoJSON (feature_type: "string field") (feature_geometry: "geometry field")
    (feature_features: "geojson list field")

record options =
  ensureOutput :: "bool field"

text \<open>The values of a number: a finite one, the negative zero, and the three that
  are not finite. A coordinate of the input is finite.\<close>

datatype js_number = Num real | NegZero | NaN | Infinity | NegInfinity

datatype error =
    No_features_found
  | Unhandled_type "string field"
  | Unhandled_geometry_type "string field"
  | TypeError
  | Shape_mismatch

text \<open>
  \<^const>\<open>TypeError\<close> is the error of the runtime at a property read on
  \<^verbatim>\<open>undefined\<close>. \<^const>\<open>Shape_mismatch\<close> is not an error of the source: it marks an
  input whose coordinates do not have the shape its geometry type declares, where
  the source would hand an ill-shaped value to the grid library. Such inputs are
  outside the model.
\<close>

text \<open>The second argument of \<^verbatim>\<open>h3.h3ToGeoBoundary\<close>: a boolean in \<^verbatim>\<open>h3ToFeature\<close>,
  the object \<^verbatim>\<open>{geoJson: true}\<close> in \<^verbatim>\<open>h3SetToMultiPolygonFeature\<close>.\<close>

datatype boundary_format = Format_flag bool | Format_object bool

record h3lib =
  polyfill :: "polygon \<Rightarrow> int \<Rightarrow> bool \<Rightarrow> h3index list"
  geoToH3 :: "js_number \<Rightarrow> js_number \<Rightarrow> int \<Rightarrow> h3index"
  h3ToGeoBoundary :: "h3index \<Rightarrow> boundary_format \<Rightarrow> ring"
  h3SetToMultiPolygon :: "h3index list \<Rightarrow> bool \<Rightarrow> polygon list"

text \<open>The environment: the grid library, and \<^verbatim>\<open>a + b\<close> and \<^verbatim>\<open>a / b\<close> on numbers as the
  runtime computes them.\<close>

record environment = h3lib +
  number_plus :: "js_number \<Rightarrow> js_number \<Rightarrow> js_number"
  number_divide :: "js_number \<Rightarrow> js_number \<Rightarrow> js_number"

text \<open>The objects that the emit functions build: an object literal is the list of
  its keys and values, in the order of the source.\<close>

datatype json =
    JString string
  | JCoordinates coords
  | JArray "json list"
  | JObject "(string \<times> json) list"

fun get :: "json \<Rightarrow> string \<Rightarrow> json option" where
  "get (JObject kvs) key = map_of kvs key"
| "get _ key = None"

fun keys :: "json \<Rightarrow> string list" where
  "keys (JObject kvs) = map fst kvs"
| "keys _ = []"

subsection \<open>Private utilities\<close>

text \<open>The inner loop of \<^verbatim>\<open>flatten\<close>: \<^verbatim>\<open>out.push(arrays[i][j])\<close> for every \<^verbatim>\<open>j\<close>.\<close>

fun push_all :: "'a list \<Rightarrow> 'a list \<Rightarrow> 'a list" where
  "push_all out [] = out"
| "push_all out (x # xs) = push_all (out @ [x]) xs"

text \<open>The outer loop of \<^verbatim>\<open>flatten\<close>; \<^verbatim>\<open>out\<close> is \<^verbatim>\<open>null\<close> until the first array
  is seen.\<close>

fun flatten_loop :: "'a list option \<Rightarrow> 'a list list \<Rightarrow> 'a list option" where
  "flatten_loop out [] = out"
| "flatten_loop (Some out) (a # arrays) = flatten_loop (Some (push_all out a)) arrays"
| "flatten_loop None (a # arrays) = flatten_loop (Some a) arrays"

text \<open>\<^verbatim>\<open>flatten\<close> pushes onto the first of its arrays. Every array it is given is
  fresh (a result of the grid library, an array literal, or a result of
  \<^verbatim>\<open>Array.from\<close>), so no caller sees the mutation and the arrays are values here.

  \<^verbatim>\<open>new Set(iterable)\<close> adds the values one by one and keeps the order of
  insertion; \<^verbatim>\<open>new Set(null)\<close> is empty. \<^verbatim>\<open>Array.from\<close> lists the members in that
  order, so a set is modelled by the list of its members.\<close>

definition set_add :: "'a list \<Rightarrow> 'a \<Rightarrow> 'a list" where
  "set_add s x = (if x \<in> set s then s else s @ [x])"

definition new_Set :: "'a list option \<Rightarrow> 'a list" where
  "new_Set iterable = (case iterable of None \<Rightarrow> [] | Some xs \<Rightarrow> foldl set_add [] xs)"

definition flatten :: "'a list list \<Rightarrow> 'a list" where
  "flatten arrays = new_Set (flatten_loop None arrays)"

text \<open>The loop of \<^verbatim>\<open>centroid\<close>, over the vertices still to visit. The sums are
  numbers of the runtime. The count is at most the length of an array, so counting is
  exact.\<close>

fun centroid_loop ::
  "environment \<Rightarrow> ring \<Rightarrow> js_number \<Rightarrow> js_number \<Rightarrow> nat \<Rightarrow> js_number \<times> js_number \<times> nat" where
  "centroid_loop env [] lngSum latSum count = (lngSum, latSum, count)"
| "centroid_loop env (p # ps) lngSum latSum count =
     centroid_loop env ps
       (number_plus env lngSum (Num (fst p))) (number_plus env latSum (Num (snd p))) (count + 1)"

text \<open>\<^verbatim>\<open>polygon[0]\<close> of an empty array is \<^verbatim>\<open>undefined\<close>, and reading its
  \<^verbatim>\<open>length\<close> throws.\<close>

definition centroid :: "environment \<Rightarrow> polygon \<Rightarrow> error + (js_number \<times> js_number)" where
  "centroid env polygon =
     (case polygon of
        [] \<Rightarrow> Inl TypeError
      | loop # _ \<Rightarrow>
          (case centroid_loop env loop (Num 0) (Num 0) 0 of
             (lngSum, latSum, count) \<Rightarrow>
               Inr (number_divide env lngSum (Num (real count)),
                    number_divide env latSum (Num (real count)))))"

subsection \<open>Fill\<close>

text \<open>\<^verbatim>\<open>Array.prototype.map\<close> with a callback that may throw: the first throw ends
  the call.\<close>

fun array_map :: "('a \<Rightarrow> error + 'b) \<Rightarrow> 'a list \<Rightarrow> error + 'b list" where
  "array_map f [] = Inr []"
| "array_map f (x # xs) =
     (case f x of
        Inl e \<Rightarrow> Inl e
      | Inr y \<Rightarrow> (case array_map f xs of Inl e \<Rightarrow> Inl e | Inr ys \<Rightarrow> Inr (y # ys)))"

lemma array_map_cong [fundef_cong]:
  "xs = ys \<Longrightarrow> (\<And>x. x \<in> set ys \<Longrightarrow> f x = g x) \<Longrightarrow> array_map f xs = array_map g ys"
  by (induction ys arbitrary: xs) (auto split: sum.splits)

text \<open>The callback of \<^verbatim>\<open>polygons.map\<close> in \<^verbatim>\<open>featureToH3Set\<close>.\<close>

definition polygon_cells :: "environment \<Rightarrow> int \<Rightarrow> options \<Rightarrow> polygon \<Rightarrow> error + h3index list" where
  "polygon_cells h3 resolution opts polygon =
     (let result = polyfill h3 polygon resolution True in
      if result \<noteq> [] \<or> ensureOutput opts \<noteq> Value True then Inr result
      else (case centroid h3 polygon of
              Inl e \<Rightarrow> Inl e
            | Inr (lng, lat) \<Rightarrow> Inr [geoToH3 h3 lat lng resolution]))"

text \<open>\<^verbatim>\<open>geometry && geometry.type\<close>.\<close>

definition geometryType_of :: "geometry field \<Rightarrow> string field" where
  "geometryType_of g = (case g of Undefined \<Rightarrow> Undefined | Null \<Rightarrow> Null | Value v \<Rightarrow> geometry_type v)"

text \<open>\<^verbatim>\<open>geometryType === POLYGON ? [geometry.coordinates] : geometry.coordinates\<close>.\<close>

definition normalize :: "string field \<Rightarrow> coords \<Rightarrow> error + polygon list" where
  "normalize geometryType c =
     (if geometryType = Value POLYGON
      then (case c of Polygon_coordinates p \<Rightarrow> Inr [p] | MultiPolygon_coordinates _ \<Rightarrow> Inl Shape_mismatch)
      else (case c of MultiPolygon_coordinates ps \<Rightarrow> Inr ps | Polygon_coordinates _ \<Rightarrow> Inl Shape_mismatch))"

text \<open>\<^verbatim>\<open>if ( options === void 0 ) options = {};\<close>\<close>

definition default_options :: "options option \<Rightarrow> options" where
  "default_options options_arg =
     (case options_arg of None \<Rightarrow> \<lparr>ensureOutput = Undefined\<rparr> | Some v \<Rightarrow> v)"

text \<open>In \<^verbatim>\<open>featureToH3Set\<close> below, the read of \<^verbatim>\<open>geometry.coordinates\<close> needs a
  geometry that is an object. After the two checks it always is one; on
  \<^verbatim>\<open>undefined\<close> or \<^verbatim>\<open>null\<close> the read would throw.\<close>

lemma size_features:
  "feature_features fc = Value fs \<Longrightarrow> f \<in> set fs \<Longrightarrow> size f < size fc"
  by (cases fc) (auto dest!: size_list_estimation'[where f = size and y = "size f"] simp: less_Suc_eq_le)

function featureCollectionToH3Set :: "environment \<Rightarrow> geojson \<Rightarrow> int \<Rightarrow> error + h3index list"
  and featureToH3Set :: "environment \<Rightarrow> geojson \<Rightarrow> int \<Rightarrow> options option \<Rightarrow> error + h3index list"
where
  "featureCollectionToH3Set h3 featureCollection resolution =
     (case feature_features featureCollection of
        Value features \<Rightarrow>
          (case array_map (\<lambda>feature. featureToH3Set h3 feature resolution None) features of
             Inl e \<Rightarrow> Inl e
           | Inr arrays \<Rightarrow> Inr (flatten arrays))
      | _ \<Rightarrow> Inl No_features_found)"
| "featureToH3Set h3 feature resolution options_arg =
     (let opts = default_options options_arg;
          type = feature_type feature;
          geometry = feature_geometry feature;
          geometryType = geometryType_of geometry
      in if type = Value FEATURE_COLLECTION then featureCollectionToH3Set h3 feature resolution
         else if type \<noteq> Value FEATURE then Inl (Unhandled_type type)
         else if geometryType \<noteq> Value POLYGON \<and> geometryType \<noteq> Value MULTI_POLYGON
           then Inl (Unhandled_geometry_type geometryType)
         else (case geometry of
                 Value g \<Rightarrow>
                   (case normalize geometryType (geometry_coordinates g) of
                      Inl e \<Rightarrow> Inl e
                    | Inr polygons \<Rightarrow>
                        (case array_map (polygon_cells h3 resolution opts) polygons of
                           Inl e \<Rightarrow> Inl e
                         | Inr arrays \<Rightarrow> Inr (flatten arrays)))
               | _ \<Rightarrow> Inl TypeError))"
  by pat_completeness auto
termination
  by (relation "measure (\<lambda>x. case x of Inl (h3, fc, r) \<Rightarrow> 2 * size fc | Inr (h3, f, r, opts) \<Rightarrow> 2 * size f + 1)")
    (auto dest: size_features)

subsection \<open>Emit\<close>

text \<open>\<^verbatim>\<open>if ( properties === void 0 ) properties = {};\<close>\<close>

definition default_properties :: "json option \<Rightarrow> json" where
  "default_properties properties_arg = (case properties_arg of None \<Rightarrow> JObject [] | Some v \<Rightarrow> v)"

definition h3ToFeature :: "'a h3lib_scheme \<Rightarrow> h3index \<Rightarrow> json option \<Rightarrow> json" where
  "h3ToFeature h3 h3Index properties_arg =
     (let properties = default_properties properties_arg;
          coordinates = [h3ToGeoBoundary h3 h3Index (Format_flag True)]
      in JObject
           [(''type'', JString FEATURE),
            (''id'', JString h3Index),
            (''properties'', properties),
            (''geometry'', JObject
               [(''type'', JString POLYGON),
                (''coordinates'', JCoordinates (Polygon_coordinates coordinates))])])"

text \<open>\<^verbatim>\<open>polygons[0] || []\<close>: an outline is an array, and every array is truthy, so
  the right operand is taken only when \<^verbatim>\<open>polygons\<close> is empty.\<close>

definition h3SetToFeature :: "'a h3lib_scheme \<Rightarrow> h3index list \<Rightarrow> json option \<Rightarrow> json" where
  "h3SetToFeature h3 hexagons properties_arg =
     (let properties = default_properties properties_arg;
          polygons = h3SetToMultiPolygon h3 hexagons True;
          isMultiPolygon = (length polygons > 1);
          type = (if isMultiPolygon then MULTI_POLYGON else POLYGON);
          coordinates =
            (if isMultiPolygon then MultiPolygon_coordinates polygons
             else Polygon_coordinates (case polygons of [] \<Rightarrow> [] | p # _ \<Rightarrow> p))
      in JObject
           [(''type'', JString FEATURE),
            (''properties'', properties),
            (''geometry'', JObject
               [(''type'', JString type),
                (''coordinates'', JCoordinates coordinates)])])"

definition h3SetToMultiPolygonFeature :: "'a h3lib_scheme \<Rightarrow> h3index list \<Rightarrow> json option \<Rightarrow> json" where
  "h3SetToMultiPolygonFeature h3 hexagons properties_arg =
     (let properties = default_properties properties_arg;
          coordinates = map (\<lambda>h3Index. [h3ToGeoBoundary h3 h3Index (Format_object True)]) hexagons
      in JObject
           [(''type'', JString FEATURE),
            (''properties'', properties),
            (''geometry'', JObject
               [(''type'', JString MULTI_POLYGON),
                (''coordinates'', JCoordinates (MultiPolygon_coordinates coordinates))])])"

text \<open>The loop of \<^verbatim>\<open>h3SetToFeatureCollection\<close>, over the hexagons still to visit.\<close>

fun features_loop :: "'a h3lib_scheme \<Rightarrow> (h3index \<Rightarrow> json) option \<Rightarrow> json list \<Rightarrow> h3index list \<Rightarrow> json list" where
  "features_loop h3 getProperties features [] = features"
| "features_loop h3 getProperties features (h3Index # hexagons) =
     (let properties = (case getProperties of Some g \<Rightarrow> g h3Index | None \<Rightarrow> JObject [])
      in features_loop h3 getProperties (features @ [h3ToFeature h3 h3Index (Some properties)]) hexagons)"

definition h3SetToFeatureCollection :: "'a h3lib_scheme \<Rightarrow> h3index list \<Rightarrow> (h3index \<Rightarrow> json) option \<Rightarrow> json" where
  "h3SetToFeatureCollection h3 hexagons getProperties =
     JObject
       [(''type'', JString FEATURE_COLLECTION),
        (''features'', JArray (features_loop h3 getProperties [] hexagons))]"

subsection \<open>The specification's notions\<close>

text \<open>Union with deduplication (section 4.3 of the specification): every distinct
  value of the concatenation of the inputs exactly once, at the place of its first
  occurrence.\<close>

fun first_occurrences :: "'a list \<Rightarrow> 'a list" where
  "first_occurrences [] = []"
| "first_occurrences (x # xs) = x # first_occurrences (filter (\<lambda>y. y \<noteq> x) xs)"

definition union_dedup :: "'a list list \<Rightarrow> 'a list" where
  "union_dedup arrays = first_occurrences (concat arrays)"

subsection \<open>An environment for the examples\<close>

text \<open>A grid of two cells, west and east of the prime meridian. Its fill lists the
  cell of every vertex of the outer ring that lies north of the equator, so that a
  polygon south of it fills to nothing. Its arithmetic is exact on finite numbers and
  gives \<^const>\<open>NaN\<close> elsewhere: in the examples below it differs from binary64 at most
  in the last bit of a quotient, which does not move a point across the meridian.\<close>

definition cell_at :: "real \<Rightarrow> h3index" where
  "cell_at lng = (if lng < 0 then ''west'' else ''east'')"

definition h3_two_cells :: environment where
  "h3_two_cells =
     \<lparr>polyfill = (\<lambda>polygon resolution geoJson.
          case polygon of [] \<Rightarrow> [] | loop # _ \<Rightarrow> map (\<lambda>p. cell_at (fst p)) (filter (\<lambda>p. 0 < snd p) loop)),
      geoToH3 = (\<lambda>lat lng resolution. case lng of Num x \<Rightarrow> cell_at x | _ \<Rightarrow> ''invalid''),
      h3ToGeoBoundary = (\<lambda>h3Index format. if h3Index = ''west'' then [(-1, 0), (0, 1), (-1, 0)] else [(1, 0), (0, 1), (1, 0)]),
      h3SetToMultiPolygon = (\<lambda>hexagons geoJson. map (\<lambda>h. [[(0, 0)]]) (remdups hexagons)),
      number_plus = (\<lambda>a b. case a of Num x \<Rightarrow> (case b of Num y \<Rightarrow> Num (x + y) | _ \<Rightarrow> NaN) | _ \<Rightarrow> NaN),
      number_divide = (\<lambda>a b. case a of
          Num x \<Rightarrow> (case b of Num y \<Rightarrow> (if y = 0 then NaN else Num (x / y)) | _ \<Rightarrow> NaN)
        | _ \<Rightarrow> NaN)\<rparr>"

section \<open>Lemmas\<close>

text \<open>The equations of the two mutually recursive functions rewrite their own
  right-hand sides; they are used by name.\<close>

declare featureToH3Set.simps [simp del] featureCollectionToH3Set.simps [simp del]

lemma push_all_append: "push_all out xs = out @ xs"
  by (induction xs arbitrary: out) simp_all

lemma flatten_loop_Some: "flatten_loop (Some out) arrays = Some (out @ concat arrays)"
  by (induction arrays arbitrary: out) (simp_all add: push_all_append)

lemma flatten_loop_None:
  "flatten_loop None arrays = (if arrays = [] then None else Some (concat arrays))"
  by (cases arrays) (simp_all add: flatten_loop_Some)

lemma foldl_set_add:
  "foldl set_add acc xs = acc @ first_occurrences (filter (\<lambda>y. y \<notin> set acc) xs)"
proof (induction xs arbitrary: acc)
  case Nil
  show ?case by simp
next
  case (Cons x xs)
  show ?case
  proof (cases "x \<in> set acc")
    case True
    then have "set_add acc x = acc" by (simp add: set_add_def)
    with True show ?thesis by (simp add: Cons.IH)
  next
    case False
    have "filter (\<lambda>y. y \<notin> set (acc @ [x])) xs = filter (\<lambda>y. y \<noteq> x) (filter (\<lambda>y. y \<notin> set acc) xs)"
      by (induction xs) auto
    moreover from False have "set_add acc x = acc @ [x]" by (simp add: set_add_def)
    ultimately show ?thesis using False by (simp add: Cons.IH)
  qed
qed

lemma new_Set_Some: "new_Set (Some xs) = first_occurrences xs"
  by (simp add: new_Set_def foldl_set_add)

lemma flatten_union_dedup: "flatten arrays = union_dedup arrays"
  by (cases arrays) (simp_all add: flatten_def union_dedup_def flatten_loop_None new_Set_Some, simp add: new_Set_def)

lemma set_first_occurrences: "set (first_occurrences xs) = set xs"
  by (induction xs rule: first_occurrences.induct) auto

lemma distinct_first_occurrences: "distinct (first_occurrences xs)"
  by (induction xs rule: first_occurrences.induct) (auto simp: set_first_occurrences)

text \<open>The deduplication in terms of the library's \<^const>\<open>remdups\<close>, which keeps the last
  occurrence of a value.\<close>

lemma remdups_snoc: "remdups (ys @ [x]) = filter (\<lambda>y. y \<noteq> x) (remdups ys) @ [x]"
  by (induction ys) auto

lemma first_occurrences_remdups: "first_occurrences xs = rev (remdups (rev xs))"
  by (induction xs rule: first_occurrences.induct)
    (simp_all add: remdups_snoc rev_filter remdups_filter)

lemma set_union_dedup: "set (union_dedup arrays) = (\<Union>a \<in> set arrays. set a)"
  by (simp add: union_dedup_def set_first_occurrences)

text \<open>The loop of \<^verbatim>\<open>centroid\<close> adds the coordinates from left to right and counts the
  vertices.\<close>

lemma centroid_loop_foldl:
  "centroid_loop env ring lngSum latSum count =
     (foldl (\<lambda>s p. number_plus env s (Num (fst p))) lngSum ring,
      foldl (\<lambda>s p. number_plus env s (Num (snd p))) latSum ring,
      count + length ring)"
  by (induction ring arbitrary: lngSum latSum count) simp_all

lemma centroid_no_ring: "centroid env [] = Inl TypeError"
  by (simp add: centroid_def)

lemma constants_distinct:
  "FEATURE \<noteq> FEATURE_COLLECTION" "FEATURE_COLLECTION \<noteq> FEATURE"
  "POLYGON \<noteq> MULTI_POLYGON" "MULTI_POLYGON \<noteq> POLYGON"
  by (simp_all add: FEATURE_def FEATURE_COLLECTION_def POLYGON_def MULTI_POLYGON_def)

lemma featureToH3Set_collection:
  "feature_type f = Value FEATURE_COLLECTION \<Longrightarrow>
   featureToH3Set h3 f r opts = featureCollectionToH3Set h3 f r"
  by (simp add: featureToH3Set.simps)

lemma featureToH3Set_other_type:
  "feature_type f \<noteq> Value FEATURE_COLLECTION \<Longrightarrow> feature_type f \<noteq> Value FEATURE \<Longrightarrow>
   featureToH3Set h3 f r opts = Inl (Unhandled_type (feature_type f))"
  by (simp add: featureToH3Set.simps)

lemma featureToH3Set_other_geometry:
  "feature_type f = Value FEATURE \<Longrightarrow>
   geometryType_of (feature_geometry f) \<noteq> Value POLYGON \<Longrightarrow>
   geometryType_of (feature_geometry f) \<noteq> Value MULTI_POLYGON \<Longrightarrow>
   featureToH3Set h3 f r opts = Inl (Unhandled_geometry_type (geometryType_of (feature_geometry f)))"
  by (simp add: featureToH3Set.simps constants_distinct)

lemma geometryType_of_polygonal:
  "geometryType_of gf = Value t \<Longrightarrow> \<exists>g. gf = Value g \<and> geometry_type g = Value t"
  by (cases gf) (simp_all add: geometryType_of_def)

lemma featureToH3Set_feature:
  assumes "feature_type f = Value FEATURE" and "feature_geometry f = Value g"
    and "geometry_type g = Value POLYGON \<or> geometry_type g = Value MULTI_POLYGON"
  shows "featureToH3Set h3 f r opts =
     (case normalize (geometry_type g) (geometry_coordinates g) of
        Inl e \<Rightarrow> Inl e
      | Inr polygons \<Rightarrow>
          (case array_map (polygon_cells h3 r (default_options opts)) polygons of
             Inl e \<Rightarrow> Inl e
           | Inr arrays \<Rightarrow> Inr (flatten arrays)))"
  using assms by (auto simp add: featureToH3Set.simps constants_distinct geometryType_of_def)

lemma array_map_Inl:
  "array_map f xs = Inl e \<Longrightarrow> \<exists>x \<in> set xs. f x = Inl e"
  by (induction xs) (auto split: sum.splits)

lemma array_map_Inr:
  "(\<And>x. x \<in> set xs \<Longrightarrow> f x = Inr (g x)) \<Longrightarrow> array_map f xs = Inr (map g xs)"
  by (induction xs) auto

lemma polygon_cells_error:
  "polygon_cells h3 r opts p = Inl e \<Longrightarrow> e = TypeError"
  by (auto simp: polygon_cells_def Let_def centroid_def split: if_splits sum.splits list.splits prod.splits)

lemma normalize_error:
  "normalize t c = Inl e \<Longrightarrow> e = Shape_mismatch"
  by (auto simp: normalize_def split: if_splits coords.splits)

lemma feature_errors:
  assumes "feature_type f = Value FEATURE" and "featureToH3Set h3 f r opts = Inl e"
  shows "e = Unhandled_geometry_type (geometryType_of (feature_geometry f)) \<and>
           geometryType_of (feature_geometry f) \<noteq> Value POLYGON \<and>
           geometryType_of (feature_geometry f) \<noteq> Value MULTI_POLYGON
         \<or> (e = TypeError \<or> e = Shape_mismatch) \<and>
           (geometryType_of (feature_geometry f) = Value POLYGON \<or>
            geometryType_of (feature_geometry f) = Value MULTI_POLYGON)"
proof (cases "geometryType_of (feature_geometry f) = Value POLYGON \<or>
    geometryType_of (feature_geometry f) = Value MULTI_POLYGON")
  case False
  with assms featureToH3Set_other_geometry[of f h3 r opts] show ?thesis by auto
next
  case True
  then obtain g where g: "feature_geometry f = Value g"
    "geometry_type g = Value POLYGON \<or> geometry_type g = Value MULTI_POLYGON"
    by (auto dest: geometryType_of_polygonal)
  from assms(2) have "e = TypeError \<or> e = Shape_mismatch"
    unfolding featureToH3Set_feature[OF assms(1) g]
    by (auto split: sum.splits dest!: normalize_error array_map_Inl polygon_cells_error)
  with True show ?thesis by simp
qed

lemma features_loop_map:
  "features_loop h3 getProperties features hexagons =
     features @ map (\<lambda>h3Index. h3ToFeature h3 h3Index
        (Some (case getProperties of Some g \<Rightarrow> g h3Index | None \<Rightarrow> JObject []))) hexagons"
  by (induction hexagons arbitrary: features) simp_all

text \<open>The two branches of the callback for a polygon that has an outer ring.\<close>

lemma polygon_cells_no_fallback:
  "ensureOutput opts \<noteq> Value True \<Longrightarrow> polygon_cells h3 r opts p = Inr (polyfill h3 p r True)"
  by (simp add: polygon_cells_def)

lemma polygon_cells_one_cell:
  "polyfill h3 (loop # holes) r True = [] \<Longrightarrow> ensureOutput opts = Value True \<Longrightarrow>
   \<exists>lng lat. centroid h3 (loop # holes) = Inr (lng, lat) \<and>
     polygon_cells h3 r opts (loop # holes) = Inr [geoToH3 h3 lat lng r]"
  by (simp add: polygon_cells_def centroid_def split: prod.splits)

lemma non_collection_no_missing_features:
  assumes "feature_type f \<noteq> Value FEATURE_COLLECTION"
  shows "featureToH3Set h3 f r opts \<noteq> Inl No_features_found"
proof (cases "feature_type f = Value FEATURE")
  case True
  show ?thesis
  proof
    assume "featureToH3Set h3 f r opts = Inl No_features_found"
    from feature_errors[OF True this] show False by simp
  qed
next
  case False
  with assms show ?thesis by (simp add: featureToH3Set_other_type)
qed

text \<open>A collection is filled without the options of the call.\<close>

lemma collection_options_unused:
  "feature_type f = Value FEATURE_COLLECTION \<Longrightarrow>
   featureToH3Set h3 f r opts = featureToH3Set h3 f r None"
  by (simp add: featureToH3Set_collection)

subsection \<open>Evaluations on the example grid\<close>

lemma eval_two_polygons:
  "featureToH3Set h3_two_cells
     (GeoJSON (Value FEATURE)
        (Value \<lparr>geometry_type = Value MULTI_POLYGON,
                geometry_coordinates = MultiPolygon_coordinates
                  [[[(1, 1), (-1, 1), (1, 1)]], [[(-1, 1), (-1, 2)]]]\<rparr>)
        Undefined) 9 None = Inr [''east'', ''west'']"
  by (simp add: featureToH3Set.simps constants_distinct geometryType_of_def normalize_def
      polygon_cells_def default_options_def h3_two_cells_def cell_at_def flatten_def
      new_Set_def set_add_def FEATURE_def FEATURE_COLLECTION_def POLYGON_def MULTI_POLYGON_def)

lemma eval_south_feature:
  "featureToH3Set h3_two_cells
     (GeoJSON (Value FEATURE)
        (Value \<lparr>geometry_type = Value POLYGON,
                geometry_coordinates = Polygon_coordinates [[(1, -1), (-1, -1), (1, -1)]]\<rparr>)
        Undefined) 9 (Some \<lparr>ensureOutput = Value True\<rparr>) = Inr [''east'']"
  by (simp add: featureToH3Set.simps constants_distinct geometryType_of_def normalize_def
      polygon_cells_def default_options_def h3_two_cells_def cell_at_def flatten_def
      new_Set_def set_add_def centroid_def)

lemma eval_south_collection:
  "featureToH3Set h3_two_cells
     (GeoJSON (Value FEATURE_COLLECTION) Undefined
        (Value [GeoJSON (Value FEATURE)
           (Value \<lparr>geometry_type = Value POLYGON,
                   geometry_coordinates = Polygon_coordinates [[(1, -1), (-1, -1), (1, -1)]]\<rparr>)
           Undefined])) 9 (Some \<lparr>ensureOutput = Value True\<rparr>) = Inr []"
  by (simp add: featureToH3Set.simps featureCollectionToH3Set.simps constants_distinct geometryType_of_def normalize_def
      polygon_cells_def default_options_def h3_two_cells_def cell_at_def flatten_def
      new_Set_def set_add_def centroid_def)

text \<open>One polygon without rings makes the whole call throw when \<^verbatim>\<open>ensureOutput\<close> is
  true, and the cells of the other polygons are lost with it.\<close>

lemma eval_ringless_sibling:
  "featureToH3Set h3_two_cells
     (GeoJSON (Value FEATURE)
        (Value \<lparr>geometry_type = Value MULTI_POLYGON,
                geometry_coordinates = MultiPolygon_coordinates [[[(1, 1)]], []]\<rparr>)
        Undefined) 9 (Some \<lparr>ensureOutput = Value True\<rparr>) = Inl TypeError
   \<and> featureToH3Set h3_two_cells
     (GeoJSON (Value FEATURE)
        (Value \<lparr>geometry_type = Value MULTI_POLYGON,
                geometry_coordinates = MultiPolygon_coordinates [[[(1, 1)]], []]\<rparr>)
        Undefined) 9 None = Inr [''east'']"
  by (simp add: featureToH3Set.simps constants_distinct geometryType_of_def normalize_def
      polygon_cells_def default_options_def h3_two_cells_def cell_at_def flatten_def
      new_Set_def set_add_def centroid_def)

section \<open>The claims\<close>

text \<open>
  C1. The claim: a collection is filled by filling every member with the resolution
  and the options of the call. The source fills the members without the options
  (\<^verbatim>\<open>featureToH3Set(feature, resolution)\<close> in \<^verbatim>\<open>featureCollectionToH3Set\<close>). On the
  example grid, a collection of one feature whose polygon fills to nothing gives no
  cell with \<^verbatim>\<open>ensureOutput\<close>, where the feature alone gives the cell of its centroid.
\<close>

theorem collection_ignores_ensureOutput:
  "featureToH3Set h3_two_cells
     (GeoJSON (Value FEATURE_COLLECTION) Undefined
        (Value [GeoJSON (Value FEATURE)
           (Value \<lparr>geometry_type = Value POLYGON,
                   geometry_coordinates = Polygon_coordinates [[(1, -1), (-1, -1), (1, -1)]]\<rparr>)
           Undefined])) 9 (Some \<lparr>ensureOutput = Value True\<rparr>) = Inr []
   \<and> featureToH3Set h3_two_cells
     (GeoJSON (Value FEATURE)
        (Value \<lparr>geometry_type = Value POLYGON,
                geometry_coordinates = Polygon_coordinates [[(1, -1), (-1, -1), (1, -1)]]\<rparr>)
        Undefined) 9 (Some \<lparr>ensureOutput = Value True\<rparr>) = Inr [''east'']"
  by (simp add: eval_south_feature eval_south_collection)

text \<open>
  C2. Take an input of type FeatureCollection of the data model: its \<^verbatim>\<open>features\<close>
  property is absent or is a list, and no member of the list is a collection itself
  (as when every member is a Feature). Filling it raises the missing-features error if and
  only if the input has no \<^verbatim>\<open>features\<close> property; with an empty list of features it
  raises nothing and returns no cell.
\<close>

theorem collection_missing_features:
  assumes "feature_type fc = Value FEATURE_COLLECTION"
    and "feature_features fc \<noteq> Null"
    and "\<forall>features. feature_features fc = Value features \<longrightarrow>
           (\<forall>f \<in> set features. feature_type f \<noteq> Value FEATURE_COLLECTION)"
  shows "(featureToH3Set h3 fc r opts = Inl No_features_found \<longleftrightarrow>
            feature_features fc = Undefined)
       \<and> (feature_features fc = Value [] \<longrightarrow> featureToH3Set h3 fc r opts = Inr [])"
proof (cases "feature_features fc")
  case Undefined
  with assms(1) show ?thesis
    by (simp add: featureToH3Set_collection featureCollectionToH3Set.simps)
next
  case Null
  with assms(2) show ?thesis by simp
next
  case (Value features)
  have "array_map (\<lambda>feature. featureToH3Set h3 feature r None) features \<noteq> Inl No_features_found"
  proof
    assume "array_map (\<lambda>feature. featureToH3Set h3 feature r None) features = Inl No_features_found"
    then obtain f where "f \<in> set features" "featureToH3Set h3 f r None = Inl No_features_found"
      by (auto dest: array_map_Inl)
    with assms(3) Value show False
      using non_collection_no_missing_features[of f h3 r None] by auto
  qed
  with assms(1) Value show ?thesis
    by (auto simp: featureToH3Set_collection featureCollectionToH3Set.simps flatten_def new_Set_def
        split: sum.splits)
qed

theorem collection_missing_features_witness:
  "featureToH3Set h3_two_cells (GeoJSON (Value FEATURE_COLLECTION) Undefined Undefined) 7 None
     = Inl No_features_found
   \<and> featureToH3Set h3_two_cells (GeoJSON (Value FEATURE_COLLECTION) Undefined (Value [])) 7 None
     = Inr []
   \<and> featureToH3Set h3_two_cells
       (GeoJSON (Value FEATURE_COLLECTION) Undefined
          (Value [GeoJSON (Value FEATURE)
             (Value \<lparr>geometry_type = Value POLYGON,
                     geometry_coordinates = Polygon_coordinates [[(1, 1), (-1, 1), (1, 1)]]\<rparr>)
             Undefined])) 7 None
     \<noteq> Inl No_features_found"
  using collection_missing_features [of "GeoJSON (Value FEATURE_COLLECTION) Undefined Undefined" h3_two_cells 7 None]
    collection_missing_features [of "GeoJSON (Value FEATURE_COLLECTION) Undefined (Value [])" h3_two_cells 7 None]
    collection_missing_features [of "GeoJSON (Value FEATURE_COLLECTION) Undefined
          (Value [GeoJSON (Value FEATURE)
             (Value \<lparr>geometry_type = Value POLYGON,
                     geometry_coordinates = Polygon_coordinates [[(1, 1), (-1, 1), (1, 1)]]\<rparr>)
             Undefined])" h3_two_cells 7 None]
  by (simp add: FEATURE_def FEATURE_COLLECTION_def)

text \<open>
  C3. The claim: for a polygon that fills to nothing, \<^verbatim>\<open>ensureOutput\<close> substitutes one
  cell. \<^verbatim>\<open>centroid\<close> reads \<^verbatim>\<open>polygon[0].length\<close> without a check that the polygon has a
  ring. A polygon without rings is what \<^verbatim>\<open>h3SetToFeature\<close> emits for no cells; on the
  example grid its fill is empty, and with \<^verbatim>\<open>ensureOutput\<close> the call throws where the
  claim has it return a cell.
\<close>

theorem centroid_fallback_no_ring:
  "polyfill h3_two_cells [] 9 True = []
   \<and> featureToH3Set h3_two_cells
     (GeoJSON (Value FEATURE)
        (Value \<lparr>geometry_type = Value POLYGON, geometry_coordinates = Polygon_coordinates []\<rparr>)
        Undefined) 9 (Some \<lparr>ensureOutput = Value True\<rparr>) = Inl TypeError"
  by (simp add: featureToH3Set.simps constants_distinct geometryType_of_def normalize_def
      polygon_cells_def default_options_def h3_two_cells_def centroid_def)

text \<open>
  C4. The geometry of \<^verbatim>\<open>h3SetToFeature\<close> follows the outlines that the grid library
  returns: of more than one, a MultiPolygon whose coordinates are the outlines; of
  exactly one, a Polygon whose coordinates are that outline itself; of none, a
  Polygon with empty coordinates.
\<close>

theorem unwrap_rule:
  "(1 < length (h3SetToMultiPolygon h3 hexagons True) \<longrightarrow>
      get (h3SetToFeature h3 hexagons properties) ''geometry'' =
        Some (JObject [(''type'', JString MULTI_POLYGON),
           (''coordinates'', JCoordinates (MultiPolygon_coordinates (h3SetToMultiPolygon h3 hexagons True)))]))
   \<and> (\<forall>outline. h3SetToMultiPolygon h3 hexagons True = [outline] \<longrightarrow>
      get (h3SetToFeature h3 hexagons properties) ''geometry'' =
        Some (JObject [(''type'', JString POLYGON),
           (''coordinates'', JCoordinates (Polygon_coordinates outline))]))
   \<and> (h3SetToMultiPolygon h3 hexagons True = [] \<longrightarrow>
      get (h3SetToFeature h3 hexagons properties) ''geometry'' =
        Some (JObject [(''type'', JString POLYGON),
           (''coordinates'', JCoordinates (Polygon_coordinates []))]))"
  by (simp add: h3SetToFeature_def)

theorem unwrap_rule_witness:
  "get (h3SetToFeature h3_two_cells [''west'', ''east''] None) ''geometry'' =
     Some (JObject [(''type'', JString MULTI_POLYGON),
        (''coordinates'', JCoordinates (MultiPolygon_coordinates [[[(0, 0)]], [[(0, 0)]]]))])
   \<and> get (h3SetToFeature h3_two_cells [''west'', ''west''] None) ''geometry'' =
     Some (JObject [(''type'', JString POLYGON),
        (''coordinates'', JCoordinates (Polygon_coordinates [[(0, 0)]]))])
   \<and> get (h3SetToFeature h3_two_cells [] None) ''geometry'' =
     Some (JObject [(''type'', JString POLYGON),
        (''coordinates'', JCoordinates (Polygon_coordinates []))])"
  using unwrap_rule [of h3_two_cells "[''west'', ''east'']" None]
    unwrap_rule [of h3_two_cells "[''west'', ''west'']" None]
    unwrap_rule [of h3_two_cells "[]" None]
  by (simp add: h3_two_cells_def)

text \<open>
  C5. Whatever the input, a set of cells that \<^verbatim>\<open>featureToH3Set\<close> returns has no
  duplicates, and it is the first-occurrence deduplication of the concatenation, in
  order, of the arrays that were flattened: the results of the members of a
  collection, or the per-polygon results of a feature.
\<close>

theorem fillSet_no_duplicates_first_occurrence_order:
  assumes "featureToH3Set h3 feature resolution options_arg = Inr cells"
  shows "distinct cells \<and>
    (\<exists>arrays. cells = union_dedup arrays \<and>
       (if feature_type feature = Value FEATURE_COLLECTION
        then \<exists>features. feature_features feature = Value features \<and>
               array_map (\<lambda>f. featureToH3Set h3 f resolution None) features = Inr arrays
        else \<exists>g polygons. feature_geometry feature = Value g \<and>
               normalize (geometry_type g) (geometry_coordinates g) = Inr polygons \<and>
               array_map (polygon_cells h3 resolution (default_options options_arg)) polygons = Inr arrays))"
proof (cases "feature_type feature = Value FEATURE_COLLECTION")
  case True
  with assms have "featureCollectionToH3Set h3 feature resolution = Inr cells"
    by (simp add: featureToH3Set_collection)
  then obtain features arrays where
    "feature_features feature = Value features"
    "array_map (\<lambda>f. featureToH3Set h3 f resolution None) features = Inr arrays"
    "cells = flatten arrays"
    by (auto simp: featureCollectionToH3Set.simps split: field.splits sum.splits)
  with True show ?thesis
    by (auto simp: flatten_union_dedup union_dedup_def distinct_first_occurrences)
next
  case False
  with assms have ty: "feature_type feature = Value FEATURE"
    using featureToH3Set_other_type[of feature h3 resolution options_arg] by auto
  with assms have "geometryType_of (feature_geometry feature) = Value POLYGON \<or>
      geometryType_of (feature_geometry feature) = Value MULTI_POLYGON"
    using featureToH3Set_other_geometry[of feature h3 resolution options_arg] by auto
  then obtain g where g: "feature_geometry feature = Value g"
    "geometry_type g = Value POLYGON \<or> geometry_type g = Value MULTI_POLYGON"
    by (auto dest: geometryType_of_polygonal)
  from assms obtain polygons arrays where
    "normalize (geometry_type g) (geometry_coordinates g) = Inr polygons"
    "array_map (polygon_cells h3 resolution (default_options options_arg)) polygons = Inr arrays"
    "cells = flatten arrays"
    unfolding featureToH3Set_feature[OF ty g] by (auto split: sum.splits)
  with False g(1) show ?thesis
    by (auto simp: flatten_union_dedup union_dedup_def distinct_first_occurrences)
qed

theorem fillSet_no_duplicates_witness:
  "featureToH3Set h3_two_cells
     (GeoJSON (Value FEATURE)
        (Value \<lparr>geometry_type = Value MULTI_POLYGON,
                geometry_coordinates = MultiPolygon_coordinates
                  [[[(1, 1), (-1, 1), (1, 1)]], [[(-1, 1), (-1, 2)]]]\<rparr>)
        Undefined) 9 None = Inr [''east'', ''west'']
   \<and> distinct [''east'', ''west'']"
  using fillSet_no_duplicates_first_occurrence_order [OF eval_two_polygons] eval_two_polygons
  by simp

text \<open>
  C6. For an input whose type is not FeatureCollection, the unsupported-type error
  is raised if and only if the type is not Feature, and for a Feature the
  unsupported-geometry-type error is raised if and only if the geometry type, which
  is \<^verbatim>\<open>undefined\<close> or \<^verbatim>\<open>null\<close> for a missing geometry, is neither Polygon nor
  MultiPolygon. In both cases the result is the error alone, whatever the grid
  library.
\<close>

theorem unsupported_types:
  assumes "feature_type f \<noteq> Value FEATURE_COLLECTION"
  shows "((\<exists>t. featureToH3Set h3 f r opts = Inl (Unhandled_type t)) \<longleftrightarrow> feature_type f \<noteq> Value FEATURE)
     \<and> (feature_type f \<noteq> Value FEATURE \<longrightarrow>
          featureToH3Set h3 f r opts = Inl (Unhandled_type (feature_type f)))
     \<and> (feature_type f = Value FEATURE \<longrightarrow>
          ((\<exists>t. featureToH3Set h3 f r opts = Inl (Unhandled_geometry_type t)) \<longleftrightarrow>
             geometryType_of (feature_geometry f) \<noteq> Value POLYGON \<and>
             geometryType_of (feature_geometry f) \<noteq> Value MULTI_POLYGON))
     \<and> (feature_type f = Value FEATURE \<longrightarrow>
          geometryType_of (feature_geometry f) \<noteq> Value POLYGON \<and>
          geometryType_of (feature_geometry f) \<noteq> Value MULTI_POLYGON \<longrightarrow>
          featureToH3Set h3 f r opts = Inl (Unhandled_geometry_type (geometryType_of (feature_geometry f))))"
proof (cases "feature_type f = Value FEATURE")
  case False
  with assms show ?thesis by (simp add: featureToH3Set_other_type)
next
  case True
  have "\<And>e. featureToH3Set h3 f r opts = Inl e \<Longrightarrow> (\<forall>t. e \<noteq> Unhandled_type t)"
    using feature_errors[OF True] by auto
  moreover have "(\<exists>t. featureToH3Set h3 f r opts = Inl (Unhandled_geometry_type t)) \<longleftrightarrow>
             geometryType_of (feature_geometry f) \<noteq> Value POLYGON \<and>
             geometryType_of (feature_geometry f) \<noteq> Value MULTI_POLYGON"
    using feature_errors[OF True, of h3 r opts] featureToH3Set_other_geometry[OF True, of h3 r opts]
    by auto
  ultimately show ?thesis
    using True featureToH3Set_other_geometry[OF True, of h3 r opts] by auto
qed

theorem unsupported_types_witness:
  "featureToH3Set h3_two_cells (GeoJSON (Value ''Point'') Undefined Undefined) 9 None
     = Inl (Unhandled_type (Value ''Point''))
   \<and> featureToH3Set h3_two_cells (GeoJSON (Value FEATURE) Undefined Undefined) 9 None
     = Inl (Unhandled_geometry_type Undefined)
   \<and> featureToH3Set h3_two_cells
       (GeoJSON (Value FEATURE)
          (Value \<lparr>geometry_type = Value ''Point'', geometry_coordinates = Polygon_coordinates []\<rparr>)
          Undefined) 9 None
     = Inl (Unhandled_geometry_type (Value ''Point''))"
  using unsupported_types [of "GeoJSON (Value ''Point'') Undefined Undefined" h3_two_cells 9 None]
    unsupported_types [of "GeoJSON (Value FEATURE) Undefined Undefined" h3_two_cells 9 None]
    unsupported_types [of "GeoJSON (Value FEATURE)
          (Value \<lparr>geometry_type = Value ''Point'', geometry_coordinates = Polygon_coordinates []\<rparr>)
          Undefined" h3_two_cells 9 None]
  by (simp add: FEATURE_def FEATURE_COLLECTION_def POLYGON_def MULTI_POLYGON_def geometryType_of_def)

text \<open>
  C7. A Polygon feature with coordinates \<open>C\<close> fills exactly as the MultiPolygon feature
  with coordinates \<open>[C]\<close>, for every grid library, resolution and options.
\<close>

theorem polygon_is_one_element_multipolygon:
  "featureToH3Set h3
     (GeoJSON (Value FEATURE)
        (Value \<lparr>geometry_type = Value POLYGON, geometry_coordinates = Polygon_coordinates C\<rparr>)
        features) resolution opts
   = featureToH3Set h3
     (GeoJSON (Value FEATURE)
        (Value \<lparr>geometry_type = Value MULTI_POLYGON, geometry_coordinates = MultiPolygon_coordinates [C]\<rparr>)
        features) resolution opts"
  by (simp add: featureToH3Set_feature normalize_def constants_distinct)

text \<open>
  C8. The geometry of \<^verbatim>\<open>h3SetToMultiPolygonFeature\<close> is always a MultiPolygon. Its
  coordinates hold, for each cell of the input in order, one polygon of the single
  ring that is the cell's own boundary; the merge of the grid library is not used.
  For one cell it is a MultiPolygon of one outline.
\<close>

theorem multiPolygonFeature_one_outline_per_cell:
  "get (h3SetToMultiPolygonFeature h3 hexagons properties) ''geometry'' =
     Some (JObject [(''type'', JString MULTI_POLYGON),
        (''coordinates'', JCoordinates (MultiPolygon_coordinates
           (map (\<lambda>h3Index. [h3ToGeoBoundary h3 h3Index (Format_object True)]) hexagons)))])
   \<and> length (map (\<lambda>h3Index. [h3ToGeoBoundary h3 h3Index (Format_object True)]) hexagons) = length hexagons
   \<and> get (h3SetToMultiPolygonFeature h3 [h3Index] properties) ''geometry'' =
     Some (JObject [(''type'', JString MULTI_POLYGON),
        (''coordinates'', JCoordinates (MultiPolygon_coordinates
           [[h3ToGeoBoundary h3 h3Index (Format_object True)]]))])"
  by (simp add: h3SetToMultiPolygonFeature_def)

text \<open>
  C9. \<^verbatim>\<open>h3SetToFeatureCollection\<close> returns a FeatureCollection whose features are,
  for each cell of the input in order, the feature that \<^verbatim>\<open>h3ToFeature\<close> builds for
  it, with the properties that \<^verbatim>\<open>getProperties\<close> gives for the cell when it is
  supplied and \<^verbatim>\<open>{}\<close> otherwise; its id is the cell, so the ids of the features are
  the input.
\<close>

theorem featureCollection_one_feature_per_cell:
  "h3SetToFeatureCollection h3 hexagons getProperties =
     JObject [(''type'', JString FEATURE_COLLECTION),
       (''features'', JArray (map (\<lambda>h3Index. h3ToFeature h3 h3Index
          (Some (case getProperties of Some g \<Rightarrow> g h3Index | None \<Rightarrow> JObject []))) hexagons))]
   \<and> get (h3ToFeature h3 h3Index (Some (case getProperties of Some g \<Rightarrow> g h3Index | None \<Rightarrow> JObject []))) ''id''
       = Some (JString h3Index)
   \<and> get (h3ToFeature h3 h3Index (Some (case getProperties of Some g \<Rightarrow> g h3Index | None \<Rightarrow> JObject []))) ''properties''
       = Some (case getProperties of Some g \<Rightarrow> g h3Index | None \<Rightarrow> JObject [])
   \<and> map (\<lambda>feature. get feature ''id'')
       (map (\<lambda>h3Index. h3ToFeature h3 h3Index
          (Some (case getProperties of Some g \<Rightarrow> g h3Index | None \<Rightarrow> JObject []))) hexagons)
       = map (\<lambda>h3Index. Some (JString h3Index)) hexagons"
  by (simp add: h3SetToFeatureCollection_def features_loop_map h3ToFeature_def
      default_properties_def comp_def)

text \<open>
  C10. The feature of \<^verbatim>\<open>h3SetToFeature\<close> has the keys type, properties and geometry
  and no others, so no id, where \<^verbatim>\<open>h3ToFeature\<close> sets the id to the cell.
\<close>

theorem setFeature_has_no_id:
  "keys (h3SetToFeature h3 hexagons properties) = [''type'', ''properties'', ''geometry'']
   \<and> get (h3SetToFeature h3 hexagons properties) ''id'' = None
   \<and> get (h3ToFeature h3 h3Index properties) ''id'' = Some (JString h3Index)"
  by (simp add: h3SetToFeature_def h3ToFeature_def Let_def)

end
